theory Spec2Isabelle
  imports Main "HOL-Library.AList" "HOL-Library.Multiset"
begin

section \<open>Slate to CiceroMark DOM (slateToCiceroMarkDom.js)\<close>

text \<open>
  The Slate document is a JSON tree. A node is read through the properties
  \<open>object\<close>, \<open>type\<close>, \<open>text\<close>, \<open>marks\<close>, \<open>data\<close> and \<open>nodes\<close>; each of them may be
  absent, which JavaScript reads as \<open>undefined\<close>. The values kept in the \<open>data\<close> bag are
  opaque to the converter and are the type parameter \<open>'v\<close>.
\<close>

datatype mark = Mark (mark_type: "string option")

datatype 'v slate =
  Slate (node_object: "string option")
        (node_type: "string option")
        (node_text: "string option")
        (node_marks: "mark list option")
        (node_data: "(string \<times> 'v) list option")
        (node_nodes: "'v slate list option")

text \<open>
  A node of the CiceroMark DOM is a JavaScript object literal: its \<open>$class\<close>, its other
  properties in the order of the literal, and the \<open>nodes\<close> array when the literal has
  one. A property copied from the Slate node holds \<open>undefined\<close> when the Slate node
  lacks it.
\<close>

datatype 'v fieldval = FUndefined | FString string | FData 'v

datatype 'v cnode =
  CNode (cclass: string) (cfields: "(string \<times> 'v fieldval) list") (cnodes: "'v cnode list option")

text \<open>
  The exceptions: the two \<open>throw\<close> statements of \<open>_recursive\<close>, the TypeError that
  JavaScript raises when a property of \<open>undefined\<close> is read (\<open>node.marks.some\<close>,
  \<open>node.data.clauseid\<close>, \<open>nodes.forEach\<close>) or when a value that is no function is
  called, and an exception thrown by a library that the code calls.
\<close>

datatype error = FailedToProcessNode | ParentHasNoChildren | TypeError | LibraryError

definition NS :: string where
  "NS = ''org.accordproject.commonmark''"

definition NS_CICERO :: string where
  "NS_CICERO = ''org.accordproject.ciceromark''"

definition text_field :: "'v slate \<Rightarrow> 'v fieldval" where
  "text_field node = (case node_text node of None \<Rightarrow> FUndefined | Some s \<Rightarrow> FString s)"

definition data_field :: "(string \<times> 'v) list \<Rightarrow> string \<Rightarrow> 'v fieldval" where
  "data_field d k = (case map_of d k of None \<Rightarrow> FUndefined | Some v \<Rightarrow> FData v)"

definition has_mark :: "string \<Rightarrow> mark list \<Rightarrow> bool" where
  "has_mark t marks = list_ex (\<lambda>m. mark_type m = Some t) marks"

text \<open>
  \<open>handleText\<close>. The objects \<open>strong\<close> and \<open>emph\<close> are created empty and filled by
  \<open>push\<close>; the model builds them filled. In the \<open>else\<close> branch at most one of the two
  exists, so at most one of its two \<open>if\<close> statements assigns \<open>result\<close>.
\<close>

definition handleText :: "'v slate \<Rightarrow> error + 'v cnode" where
  "handleText node =
     (case node_marks node of
        None \<Rightarrow> Inl TypeError
      | Some marks \<Rightarrow>
          (let isBold = has_mark ''bold'' marks;
               isItalic = has_mark ''italic'' marks;
               isCode = has_mark ''code'' marks
           in if isCode then Inr (CNode (NS @ ''.Code'') [(''text'', text_field node)] None)
              else
                (let text = CNode (NS @ ''.Text'') [(''text'', text_field node)] None
                 in if isBold \<and> isItalic then
                      Inr (CNode (NS @ ''.Emph'') []
                             (Some [CNode (NS @ ''.Strong'') [] (Some [text])]))
                    else if isBold then Inr (CNode (NS @ ''.Strong'') [] (Some [text]))
                    else if isItalic then Inr (CNode (NS @ ''.Emph'') [] (Some [text]))
                    else Inr text)))"

text \<open>
  The inner \<open>switch (node.type)\<close> of \<open>_recursive\<close>: \<open>None\<close> when no case matches (the
  variable \<open>result\<close> stays \<open>null\<close>).
\<close>

definition heading :: "string \<Rightarrow> 'v cnode" where
  "heading level = CNode (NS @ ''.Heading'') [(''level'', FString level)] (Some [])"

definition switch_type :: "'v slate \<Rightarrow> error + 'v cnode option" where
  "switch_type node =
     (let t = node_type node in
      if t = Some ''clause'' then
        (case node_data node of None \<Rightarrow> Inl TypeError
         | Some d \<Rightarrow> Inr (Some (CNode (NS_CICERO @ ''.Clause'')
             [(''clauseid'', data_field d ''clauseid''), (''src'', data_field d ''src''),
              (''clauseText'', data_field d ''clauseText'')] (Some []))))
      else if t = Some ''variable'' then
        (case node_data node of None \<Rightarrow> Inl TypeError
         | Some d \<Rightarrow> Inr (Some (CNode (NS_CICERO @ ''.Variable'')
             [(''id'', data_field d ''id''), (''value'', data_field d ''value'')] (Some []))))
      else if t = Some ''computed'' then
        (case node_data node of None \<Rightarrow> Inl TypeError
         | Some d \<Rightarrow> Inr (Some (CNode (NS_CICERO @ ''.ComputedVariable'')
             [(''value'', data_field d ''value'')] (Some []))))
      else if t = Some ''paragraph'' then Inr (Some (CNode (NS @ ''.Paragraph'') [] (Some [])))
      else if t = Some ''quote'' then Inr (Some (CNode (NS @ ''.BlockQuote'') [] None))
      else if t = Some ''horizontal_rule'' then Inr (Some (CNode (NS @ ''.ThematicBreak'') [] None))
      else if t = Some ''heading_one'' then Inr (Some (heading ''1''))
      else if t = Some ''heading_two'' then Inr (Some (heading ''2''))
      else if t = Some ''heading_three'' then Inr (Some (heading ''3''))
      else if t = Some ''heading_four'' then Inr (Some (heading ''4''))
      else if t = Some ''heading_five'' then Inr (Some (heading ''5''))
      else if t = Some ''heading_six'' then Inr (Some (heading ''6''))
      else if t = Some ''block_quote'' then Inr (Some (CNode (NS @ ''.BlockQuote'') [] (Some [])))
      else if t = Some ''code_block'' then
        Inr (Some (CNode (NS @ ''.CodeBlock'') [(''text'', text_field node)] None))
      else if t = Some ''html_block'' then
        Inr (Some (CNode (NS @ ''.HtmlBlock'') [(''text'', text_field node)] None))
      else if t = Some ''html_inline'' then Inr (Some (CNode (NS @ ''.HtmlInline'') [] None))
      else if t = Some ''ol_list'' \<or> t = Some ''ul_list'' then
        (case node_data node of None \<Rightarrow> Inl TypeError
         | Some d \<Rightarrow> Inr (Some (CNode (NS @ ''.List'')
             [(''type'', FString (if t = Some ''ol_list'' then ''ordered'' else ''bullet'')),
              (''delimiter'', data_field d ''delimiter''), (''start'', data_field d ''start''),
              (''tight'', data_field d ''tight'')] (Some []))))
      else if t = Some ''list_item'' then
        Inr (Some (CNode (NS @ ''.Item'') [] (Some [CNode (NS @ ''.Paragraph'') [] (Some [])])))
      else if t = Some ''link'' then
        (case node_data node of None \<Rightarrow> Inl TypeError
         | Some d \<Rightarrow> Inr (Some (CNode (NS @ ''.Link'')
             [(''destination'', data_field d ''href''), (''title'', FString [])] (Some []))))
      else Inr None)"

text \<open>The outer \<open>switch (node.object)\<close>.\<close>

definition switch_object :: "'v slate \<Rightarrow> error + 'v cnode option" where
  "switch_object node =
     (if node_object node = Some ''text'' then map_sum id Some (handleText node)
      else switch_type node)"

text \<open>
  \<open>_recursive(parent, nodes)\<close> pushes into \<open>parent.nodes\<close>; the model returns the
  parent as it is after the call. \<open>recursive\<close> is the \<open>forEach\<close> loop with the end of its
  callback (the check of \<open>parent.nodes\<close> and the \<open>push\<close>); \<open>convert\<close> is the start of the
  callback: the two switches, the check of \<open>result\<close>, and the recursion into the
  children, which go to \<open>result.nodes[0]\<close> when that exists and to \<open>result\<close> otherwise. An
  array is truthy also when empty, so the recursion depends on the presence of
  \<open>node.nodes\<close> and \<open>result.nodes\<close> only.
\<close>

fun convert :: "'v slate \<Rightarrow> error + 'v cnode"
  and recursive :: "'v cnode \<Rightarrow> 'v slate list \<Rightarrow> error + 'v cnode" where
  "convert (Slate ob ty tx mk da ns) =
     (case switch_object (Slate ob ty tx mk da ns) of
        Inl e \<Rightarrow> Inl e
      | Inr None \<Rightarrow> Inl FailedToProcessNode
      | Inr (Some result) \<Rightarrow>
          (case ns of
             None \<Rightarrow> Inr result
           | Some children \<Rightarrow>
               (case cnodes result of
                  None \<Rightarrow> Inr result
                | Some [] \<Rightarrow> recursive result children
                | Some (first # others) \<Rightarrow>
                    (case recursive first children of
                       Inl e \<Rightarrow> Inl e
                     | Inr first' \<Rightarrow>
                         Inr (CNode (cclass result) (cfields result) (Some (first' # others)))))))"
| "recursive parent [] = Inr parent"
| "recursive parent (node # rest) =
     (case convert node of
        Inl e \<Rightarrow> Inl e
      | Inr result \<Rightarrow>
          (case cnodes parent of
             None \<Rightarrow> Inl ParentHasNoChildren
           | Some ps \<Rightarrow>
               recursive (CNode (cclass parent) (cfields parent) (Some (ps @ [result]))) rest))"

text \<open>
  \<open>slateToCiceroMarkDom\<close>. \<open>JSON.parse(JSON.stringify(document))\<close> is the identity on a
  JSON tree; \<open>json.nodes.forEach\<close> raises a TypeError when the document has no \<open>nodes\<close>.
\<close>

definition document_node :: "'v cnode" where
  "document_node =
     CNode ''org.accordproject.commonmark.Document''
       [(''xmlns'', FString ''http://commonmark.org/xml/1.0'')] (Some [])"

definition slateToCiceroMarkDom :: "'v slate \<Rightarrow> error + 'v cnode" where
  "slateToCiceroMarkDom document =
     (case node_nodes document of
        None \<Rightarrow> Inl TypeError
      | Some nodes \<Rightarrow> recursive document_node nodes)"

text \<open>
  The case labels of the inner switch, and the nodes the recursion visits: the nodes
  of the list given to \<open>_recursive\<close>, and the children of a visited node whose
  \<open>result\<close> has a \<open>nodes\<close> array.
\<close>

definition handled_types :: "string list" where
  "handled_types =
     [''clause'', ''variable'', ''computed'', ''paragraph'', ''quote'', ''horizontal_rule'',
      ''heading_one'', ''heading_two'', ''heading_three'', ''heading_four'', ''heading_five'',
      ''heading_six'', ''block_quote'', ''code_block'', ''html_block'', ''html_inline'',
      ''ol_list'', ''ul_list'', ''list_item'', ''link'']"

inductive visited :: "'v slate list \<Rightarrow> 'v slate \<Rightarrow> bool" for nodes :: "'v slate list" where
  visited_top: "n \<in> set nodes \<Longrightarrow> visited nodes n"
| visited_child:
    "visited nodes p \<Longrightarrow> switch_object p = Inr (Some result) \<Longrightarrow> cnodes result = Some rs \<Longrightarrow>
     node_nodes p = Some children \<Longrightarrow> n \<in> set children \<Longrightarrow> visited nodes n"

section \<open>Markdown to CommonMark DOM (CommonMarkTransformer.js)\<close>

subsection \<open>Strings\<close>

text \<open>
  The transformer looks into its strings, so they are modelled as JavaScript has
  them: sequences of UTF-16 code units, here lists of numbers. \<open>ascii\<close> gives the code
  units of a literal.
\<close>

type_synonym jsstring = "nat list"

definition ascii :: "string \<Rightarrow> jsstring" where
  "ascii s = map of_char s"

text \<open>The character classes \<open>[a-z]\<close>, \<open>[A-Z]\<close> and \<open>[0-9]\<close>.\<close>

definition is_lower :: "nat \<Rightarrow> bool" where
  "is_lower c = (97 \<le> c \<and> c \<le> 122)"

definition is_upper :: "nat \<Rightarrow> bool" where
  "is_upper c = (65 \<le> c \<and> c \<le> 90)"

definition is_digit :: "nat \<Rightarrow> bool" where
  "is_digit c = (48 \<le> c \<and> c \<le> 57)"

text \<open>
  \<open>String.prototype.trim\<close> removes the white space and the line terminators of
  ECMAScript from both ends: U+0009 to U+000D, U+0020, U+00A0, U+FEFF, U+2028, U+2029
  and the space separators of Unicode (U+1680, U+2000 to U+200A, U+202F, U+205F,
  U+3000). Each of them is one code unit.
\<close>

definition is_space :: "nat \<Rightarrow> bool" where
  "is_space c =
     (c \<in> set [0x09, 0x0A, 0x0B, 0x0C, 0x0D, 0x20, 0xA0, 0x1680, 0x2028, 0x2029, 0x202F,
               0x205F, 0x3000, 0xFEFF]
      \<or> (0x2000 \<le> c \<and> c \<le> 0x200A))"

definition trim :: "jsstring \<Rightarrow> jsstring" where
  "trim s = rev (dropWhile is_space (rev (dropWhile is_space s)))"

definition endsWith :: "jsstring \<Rightarrow> jsstring \<Rightarrow> bool" where
  "endsWith s suffix = (length suffix \<le> length s \<and> drop (length s - length suffix) s = suffix)"

subsection \<open>What the transformer takes from outside\<close>

text \<open>
  \<open>parseHtmlBlock\<close> calls the library xmldom:
  \<open>(new DOMParser()).parseFromString(string, 'text/html')\<close> throws, or it returns a
  document, of which the code reads \<open>childNodes\<close> (a parser that returns no document
  makes this read a TypeError, as if it had thrown). Of a child the code reads
  \<open>attributes\<close> (absent on a node that is no element), \<open>tagName\<close> (absent likewise) and
  \<open>textContent\<close>.
\<close>

record dom_node =
  dom_attributes :: "(jsstring \<times> jsstring) list option"
  dom_tagName :: "jsstring option"
  dom_textContent :: jsstring

text \<open>
  The record \<open>env\<close> has what the code takes from outside the sources:
  \<^item> the constant \<open>COMMON_NS_PREFIX\<close> of the module \<open>./Models\<close>;
  \<^item> \<open>parseFromString\<close> of xmldom;
  \<^item> the case mappings of Unicode, which the JavaScript engine has as tables:
    \<open>upperCase\<close> is \<open>toUpperCase\<close> on a string of one code unit above U+007F (the result
    may have several code units), \<open>lowerCase\<close> is \<open>toLowerCase\<close> on a string that has a
    code unit above U+007F.
  On the code units up to U+007F the case mappings are written out below.
\<close>

record env =
  COMMON_NS_PREFIX :: jsstring
  parseFromString :: "jsstring \<Rightarrow> error + dom_node list"
  upperCase :: "nat \<Rightarrow> jsstring"
  lowerCase :: "jsstring \<Rightarrow> jsstring"

text \<open>\<open>toUpperCase\<close> on the string of the one code unit \<open>c\<close>, and \<open>toLowerCase\<close> on a string.\<close>

definition toUpperCase :: "env \<Rightarrow> nat \<Rightarrow> jsstring" where
  "toUpperCase e c =
     (if is_lower c then [c - 32] else if c < 128 then [c] else upperCase e c)"

definition toLowerCase :: "env \<Rightarrow> jsstring \<Rightarrow> jsstring" where
  "toLowerCase e s =
     (if list_all (\<lambda>c. c < 128) s then map (\<lambda>c. if is_upper c then c + 32 else c) s
      else lowerCase e s)"

subsection \<open>The tag classifier\<close>

text \<open>
  \<open>capitalizeFirstLetter\<close>: \<open>charAt(0)\<close> is the first code unit, and \<open>charAt(0)\<close> and
  \<open>slice(1)\<close> of the empty string are empty.
\<close>

definition capitalizeFirstLetter :: "env \<Rightarrow> jsstring \<Rightarrow> jsstring" where
  "capitalizeFirstLetter e string =
     (case string of [] \<Rightarrow> [] | c # rest \<Rightarrow> toUpperCase e c @ rest)"

text \<open>
  \<open>name.replace(/_([a-z])/g, g => g[1].toUpperCase())\<close>: from left to right, an
  underscore (code unit 95) followed by a letter a to z is replaced, with that letter,
  by the letter in upper case, and the search goes on after the letter; any other
  code unit is kept.
\<close>

fun camelCased :: "env \<Rightarrow> jsstring \<Rightarrow> jsstring" where
  "camelCased e (c # d # rest) =
     (if c = 95 \<and> is_lower d then toUpperCase e d @ camelCased e rest
      else c # camelCased e (d # rest))"
| "camelCased e [c] = [c]"
| "camelCased e [] = []"

definition toClass :: "env \<Rightarrow> jsstring \<Rightarrow> jsstring" where
  "toClass e name = COMMON_NS_PREFIX e @ capitalizeFirstLetter e (camelCased e name)"

text \<open>
  The camel case that the specification describes, for comparison with \<open>toClass\<close>: each
  character that follows an underscore is upper-cased, and the underscores are removed.
  The flag says that the character before was an underscore.
\<close>

fun spec_camel :: "env \<Rightarrow> bool \<Rightarrow> jsstring \<Rightarrow> jsstring" where
  "spec_camel e after [] = []"
| "spec_camel e after (c # rest) =
     (if c = 95 then spec_camel e True rest
      else (if after then toUpperCase e c else [c]) @ spec_camel e False rest)"

definition spec_classify :: "env \<Rightarrow> jsstring \<Rightarrow> jsstring" where
  "spec_classify e name = COMMON_NS_PREFIX e @ capitalizeFirstLetter e (spec_camel e False name)"

text \<open>The names in which every underscore is followed by a letter a to z.\<close>

fun lower_after_underscore :: "jsstring \<Rightarrow> bool" where
  "lower_after_underscore (c # d # rest) =
     ((c = 95 \<longrightarrow> is_lower d) \<and> lower_after_underscore (d # rest))"
| "lower_after_underscore [c] = (c \<noteq> 95)"
| "lower_after_underscore [] = True"

subsection \<open>The HTML fragment inspector\<close>

text \<open>
  A JavaScript object used as a map from names to strings is an association list that
  has each name once, in the order of the first assignment. \<open>assign\<close> is
  \<open>object[key] = value\<close> for a string \<open>value\<close>: under the key \<open>__proto__\<close> it calls the
  setter of the prototype, which ignores a value that is no object, and makes no
  property.
\<close>

definition assign :: "jsstring \<Rightarrow> 'a \<Rightarrow> (jsstring \<times> 'a) list \<Rightarrow> (jsstring \<times> 'a) list" where
  "assign key v object = (if key = ascii ''__proto__'' then object else AList.update key v object)"

text \<open>
  \<open>for (const key in object)\<close> over such an object enumerates the names that are array
  indices (the decimal numbers below \<open>2^32 - 1\<close>, written without leading zero) in
  ascending order, and then the other names in the order of their first assignment.
\<close>

definition index_value :: "jsstring \<Rightarrow> nat" where
  "index_value s = foldl (\<lambda>n c. 10 * n + (c - 48)) 0 s"

definition is_array_index :: "jsstring \<Rightarrow> bool" where
  "is_array_index s =
     (s \<noteq> [] \<and> list_all is_digit s \<and> (s = [48] \<or> hd s \<noteq> 48) \<and> index_value s < 4294967295)"

definition for_in :: "(jsstring \<times> 'a) list \<Rightarrow> (jsstring \<times> 'a) list" where
  "for_in object =
     sort_key (\<lambda>(key, v). index_value key) (filter (\<lambda>(key, v). is_array_index key) object)
     @ filter (\<lambda>(key, v). \<not> is_array_index key) object"

text \<open>The tag object that \<open>parseHtmlBlock\<close> returns.\<close>

record tag_object =
  tag :: jsstring
  attributes :: "(jsstring \<times> jsstring) list"
  attributeString :: jsstring
  content :: jsstring
  closed :: bool

text \<open>The \<open>for\<close> loop over \<open>attributes\<close>, on the pair of \<open>attributeString\<close> and \<open>attributeObject\<close>.\<close>

fun attributes_loop ::
  "(jsstring \<times> jsstring) list \<Rightarrow> jsstring \<times> (jsstring \<times> jsstring) list
   \<Rightarrow> jsstring \<times> (jsstring \<times> jsstring) list" where
  "attributes_loop [] acc = acc"
| "attributes_loop ((name, value) # rest) (attrString, attrObject) =
     attributes_loop rest
       (attrString @ name @ ascii '' = '' @ [34] @ value @ [34] @ ascii '' '',
        assign name value attrObject)"

text \<open>
  The body of the \<open>try\<close> block. Reading a property of \<open>undefined\<close> (no first child, no
  \<open>attributes\<close>, no \<open>tagName\<close>) is a TypeError.
\<close>

definition parseHtmlBlock_try :: "env \<Rightarrow> jsstring \<Rightarrow> error + tag_object" where
  "parseHtmlBlock_try e string =
     (case parseFromString e string of
        Inl err \<Rightarrow> Inl err
      | Inr childNodes \<Rightarrow>
          (case childNodes of
             [] \<Rightarrow> Inl TypeError
           | item # _ \<Rightarrow>
               (case dom_attributes item of
                  None \<Rightarrow> Inl TypeError
                | Some attrs \<Rightarrow>
                    (let (attrString, attrObject) = attributes_loop attrs ([], [])
                     in case dom_tagName item of
                          None \<Rightarrow> Inl TypeError
                        | Some tagName \<Rightarrow>
                            Inr \<lparr>tag = toLowerCase e tagName,
                                 attributes = attrObject,
                                 attributeString = attrString,
                                 content = dom_textContent item,
                                 closed = endsWith string (ascii ''/>'')\<rparr>))))"

text \<open>
  \<open>parseHtmlBlock\<close>: the \<open>try\<close> block with its \<open>catch\<close>, which returns \<open>null\<close>. The result
  type has the exception that the function could let through.
\<close>

definition parseHtmlBlock :: "env \<Rightarrow> jsstring \<Rightarrow> error + tag_object option" where
  "parseHtmlBlock e string =
     (case parseHtmlBlock_try e string of
        Inl err \<Rightarrow> Inr None
      | Inr tag_found \<Rightarrow> Inr (Some tag_found))"

subsection \<open>The objects of the builder\<close>

text \<open>
  \<open>fromMarkdown\<close> builds the tree from JavaScript objects that it changes in place
  while they are on the stack and in the \<open>nodes\<close> array of their parent at once. The
  model has a store: a node is an address, the store gives its properties, an
  association list in the order of their first assignment. A property holds a string,
  a number, a boolean, the array of the children (addresses), or, for \<open>head.tag\<close>, an
  object or array built in place.
\<close>

datatype val =
  VString jsstring
| VNumber nat
| VBoolean bool
| VNodes "nat list"
| VArray "val list"
| VObject "(jsstring \<times> val) list"

type_synonym object = "(jsstring \<times> val) list"

record state =
  stack :: "nat list"
  heap :: "nat \<Rightarrow> object"
  fresh :: nat

text \<open>
  A handler returns, with the state it leaves, or throws, leaving the state it had
  reached.
\<close>

type_synonym outcome = "error \<times> state + state"

definition final_state :: "outcome \<Rightarrow> state" where
  "final_state r = (case r of Inl (err, st) \<Rightarrow> st | Inr st \<Rightarrow> st)"

text \<open>What \<open>if (x)\<close> and \<open>!x\<close> test: \<open>undefined\<close>, \<open>false\<close>, the empty string and zero are falsy.\<close>

fun truthy :: "val option \<Rightarrow> bool" where
  "truthy None = False"
| "truthy (Some (VString s)) = (s \<noteq> [])"
| "truthy (Some (VNumber n)) = (n \<noteq> 0)"
| "truthy (Some (VBoolean b)) = b"
| "truthy (Some (VNodes ns)) = True"
| "truthy (Some (VArray vs)) = True"
| "truthy (Some (VObject ps)) = True"

text \<open>
  Modelled from the spec: the class \<open>Stack\<close> of the module \<open>./Stack\<close> is not among the
  sources. The specification has a stack of the nodes in progress, used strictly last
  in, first out: \<open>peek\<close> gives the top node, nothing when the stack is empty; \<open>pop\<close>
  removes the top node; \<open>push\<close> makes a node the top node, after linking it to the node
  below as the last of its children, unless the node is pushed as the root, with no
  parent linkage (the second argument \<open>false\<close>). The head of the list is the top. The
  linkage is \<open>parent.nodes.push(node)\<close>, a TypeError when \<open>parent.nodes\<close> is no array.
\<close>

definition peek :: "state \<Rightarrow> nat option" where
  "peek st = (case stack st of [] \<Rightarrow> None | node # _ \<Rightarrow> Some node)"

definition pop :: "state \<Rightarrow> state" where
  "pop st = st\<lparr>stack := tl (stack st)\<rparr>"

definition push :: "state \<Rightarrow> nat \<Rightarrow> bool \<Rightarrow> outcome" where
  "push st node appendToParent =
     (case (appendToParent, peek st) of
        (True, Some parent) \<Rightarrow>
          (case map_of (heap st parent) (ascii ''nodes'') of
             Some (VNodes children) \<Rightarrow>
               Inr (st\<lparr>heap := (heap st)(parent :=
                          AList.update (ascii ''nodes'') (VNodes (children @ [node]))
                            (heap st parent)),
                        stack := node # stack st\<rparr>)
           | _ \<Rightarrow> Inl (TypeError, st))
      | _ \<Rightarrow> Inr (st\<lparr>stack := node # stack st\<rparr>))"

subsection \<open>The events and the options\<close>

text \<open>
  The sax parser calls \<open>onopentag\<close>, \<open>ontext\<close> and \<open>onclosetag\<close>. An open tag comes with
  its name, with its attributes in the order of \<open>Object.keys\<close>, and with the position
  that the handler reads from the parser when the option \<open>enableSourceLocation\<close> is set.
\<close>

record sax_position =
  line :: nat
  column :: nat
  position :: nat
  startTagPosition :: nat

datatype event =
  OpenTag jsstring "(jsstring \<times> jsstring) list" sax_position
| TextEvent jsstring
| CloseTag jsstring

record options =
  trimText :: bool
  enableSourceLocation :: bool
  noIndex :: bool
  tagInfo :: bool

text \<open>\<open>that.options && that.options.flag\<close>: the constructor may be given no options.\<close>

definition option_set :: "(options \<Rightarrow> bool) \<Rightarrow> options option \<Rightarrow> bool" where
  "option_set flag opts = (case opts of None \<Rightarrow> False | Some os \<Rightarrow> flag os)"

subsection \<open>The handlers\<close>

definition has_class :: "jsstring \<Rightarrow> object \<Rightarrow> bool" where
  "has_class c json = (map_of json (ascii ''$class'') = Some (VString c))"

definition isLeafNode :: "env \<Rightarrow> object \<Rightarrow> bool" where
  "isLeafNode e json =
     (has_class (COMMON_NS_PREFIX e @ ascii ''Text'') json \<or>
      has_class (COMMON_NS_PREFIX e @ ascii ''CodeBlock'') json \<or>
      has_class (COMMON_NS_PREFIX e @ ascii ''HtmlInline'') json \<or>
      has_class (COMMON_NS_PREFIX e @ ascii ''HtmlBlock'') json \<or>
      has_class (COMMON_NS_PREFIX e @ ascii ''Code'') json)"

definition isHtmlNode :: "env \<Rightarrow> object \<Rightarrow> bool" where
  "isHtmlNode e json =
     (has_class (COMMON_NS_PREFIX e @ ascii ''HtmlInline'') json \<or>
      has_class (COMMON_NS_PREFIX e @ ascii ''HtmlBlock'') json)"

definition isCodeBlockNode :: "env \<Rightarrow> object \<Rightarrow> bool" where
  "isCodeBlockNode e json = has_class (COMMON_NS_PREFIX e @ ascii ''CodeBlock'') json"

text \<open>
  \<open>parseHtmlBlock(maybeHtmlText)\<close>, where \<open>head.text\<close> or \<open>head.info\<close> may be absent or no
  string: then \<open>string.endsWith\<close> is no function, a TypeError inside the \<open>try\<close> block
  whatever the parser did before, and the \<open>catch\<close> returns \<open>null\<close>.
\<close>

definition parseHtmlBlock_value :: "env \<Rightarrow> val option \<Rightarrow> error + tag_object option" where
  "parseHtmlBlock_value e v =
     (case v of Some (VString string) \<Rightarrow> parseHtmlBlock e string | _ \<Rightarrow> Inr None)"

text \<open>
  The object that \<open>ontext\<close> builds in \<open>head.tag\<close>. \<open>head_tag_start\<close> is the object when the
  loop over \<open>tagInfo.attributes\<close> starts. The loop calls
  \<open>tagInfo.attributes.hasOwnProperty(attName)\<close> for each name: when the attributes have
  a name \<open>hasOwnProperty\<close>, that property is a string and the call, in the first round,
  is a TypeError (\<open>tag_loop_throws\<close>); otherwise the call is true for every name of the
  enumeration. \<open>head_tag\<close> is the object after the loop and the last two assignments.
\<close>

definition head_tag_start :: "env \<Rightarrow> tag_object \<Rightarrow> object" where
  "head_tag_start e info =
     [(ascii ''$class'', VString (COMMON_NS_PREFIX e @ ascii ''TagInfo'')),
      (ascii ''tagName'', VString (tag info)),
      (ascii ''attributeString'', VString (attributeString info)),
      (ascii ''attributes'', VArray [])]"

definition tag_loop_throws :: "tag_object \<Rightarrow> bool" where
  "tag_loop_throws info =
     (for_in (attributes info) \<noteq> [] \<and> map_of (attributes info) (ascii ''hasOwnProperty'') \<noteq> None)"

definition head_tag :: "env \<Rightarrow> tag_object \<Rightarrow> object" where
  "head_tag e info =
     [(ascii ''$class'', VString (COMMON_NS_PREFIX e @ ascii ''TagInfo'')),
      (ascii ''tagName'', VString (tag info)),
      (ascii ''attributeString'', VString (attributeString info)),
      (ascii ''attributes'',
         VArray (map (\<lambda>(attName, attValue).
                        VObject [(ascii ''$class'', VString (COMMON_NS_PREFIX e @ ascii ''Attribute'')),
                                 (ascii ''name'', VString attName),
                                 (ascii ''value'', VString attValue)])
                     (for_in (attributes info)))),
      (ascii ''content'', VString (content info)),
      (ascii ''closed'', VBoolean (closed info))]"

text \<open>The text of the event after \<open>if (that.options && that.options.trimText) t = t.trim()\<close>.\<close>

definition trimmed :: "options option \<Rightarrow> jsstring \<Rightarrow> jsstring" where
  "trimmed opts t0 = (if option_set trimText opts then trim t0 else t0)"

definition ontext :: "env \<Rightarrow> options option \<Rightarrow> state \<Rightarrow> jsstring \<Rightarrow> outcome" where
  "ontext e opts st t0 =
     (let t = trimmed opts t0 in
      case peek st of
        None \<Rightarrow> Inr st
      | Some head \<Rightarrow>
          if \<not> length t > 0 then Inr st
          else
            (let json = (if isLeafNode e (heap st head)
                         then AList.update (ascii ''text'') (VString t) (heap st head)
                         else heap st head);
                 st1 = st\<lparr>heap := (heap st)(head := json)\<rparr>
             in if isHtmlNode e json \<or> isCodeBlockNode e json then
                  (let maybeHtmlText = (if isHtmlNode e json then map_of json (ascii ''text'')
                                        else map_of json (ascii ''info''))
                   in case (if option_set tagInfo opts
                            then parseHtmlBlock_value e maybeHtmlText else Inr None) of
                        Inl err \<Rightarrow> Inl (err, st1)
                      | Inr None \<Rightarrow> Inr st1
                      | Inr (Some info) \<Rightarrow>
                          if tag_loop_throws info then
                            Inl (TypeError,
                                 st\<lparr>heap := (heap st)(head :=
                                      AList.update (ascii ''tag'') (VObject (head_tag_start e info)) json)\<rparr>)
                          else
                            Inr (st\<lparr>heap := (heap st)(head :=
                                   AList.update (ascii ''tag'') (VObject (head_tag e info)) json)\<rparr>))
                else Inr st1))"

text \<open>
  The object \<open>newNode\<close> of \<open>onopentag\<close>: its class, the source location, and the
  attributes of the tag, each assigned under its own name.
\<close>

definition newNode :: "env \<Rightarrow> options option \<Rightarrow> jsstring \<Rightarrow> (jsstring \<times> jsstring) list \<Rightarrow> sax_position \<Rightarrow> object" where
  "newNode e opts name attrs pos =
     (let n0 = AList.update (ascii ''$class'') (VString (toClass e name)) [];
          n1 = (if option_set enableSourceLocation opts then
                  AList.update (ascii ''startTagPosition'') (VNumber (startTagPosition pos))
                    (AList.update (ascii ''position'') (VNumber (position pos))
                       (AList.update (ascii ''column'') (VNumber (column pos))
                          (AList.update (ascii ''line'') (VNumber (line pos)) n0)))
                else n0)
      in foldl (\<lambda>node (key, v). assign key (VString v) node) n1 attrs)"

definition onopentag ::
  "env \<Rightarrow> options option \<Rightarrow> state \<Rightarrow> jsstring \<Rightarrow> (jsstring \<times> jsstring) list \<Rightarrow> sax_position \<Rightarrow> outcome" where
  "onopentag e opts st name attrs pos =
     (let node = fresh st;
          st1 = st\<lparr>heap := (heap st)(node := newNode e opts name attrs pos),
                   fresh := Suc node\<rparr>
      in case peek st1 of
           Some head \<Rightarrow>
             push (if \<not> truthy (map_of (heap st1 head) (ascii ''nodes''))
                   then st1\<lparr>heap := (heap st1)(head :=
                          AList.update (ascii ''nodes'') (VNodes []) (heap st1 head))\<rparr>
                   else st1) node True
         | None \<Rightarrow> push st1 node False)"

definition onclosetag :: "state \<Rightarrow> jsstring \<Rightarrow> state" where
  "onclosetag st name = (if name \<noteq> ascii ''document'' then pop st else st)"

text \<open>
  \<open>parser.write(xml).close()\<close>: the sax parser calls the handlers, one event after the
  other; an exception of a handler ends the call. The events of the XML that commonmark
  renders for the markdown text are the parameter \<open>events\<close>.
\<close>

fun handle :: "env \<Rightarrow> options option \<Rightarrow> state \<Rightarrow> event \<Rightarrow> outcome" where
  "handle e opts st (OpenTag name attrs pos) = onopentag e opts st name attrs pos"
| "handle e opts st (TextEvent t) = ontext e opts st t"
| "handle e opts st (CloseTag name) = Inr (onclosetag st name)"

fun parser_write :: "env \<Rightarrow> options option \<Rightarrow> state \<Rightarrow> event list \<Rightarrow> outcome" where
  "parser_write e opts st [] = Inr st"
| "parser_write e opts st (ev # events) =
     (case handle e opts st ev of
        Inl thrown \<Rightarrow> Inl thrown
      | Inr st' \<Rightarrow> parser_write e opts st' events)"

text \<open>
  \<open>fromMarkdown\<close> with the format \<open>json\<close>: the new stack, the events, and \<open>stack.peek()\<close>
  as the result, given with the store that holds the tree below it. An exception of
  a handler leaves \<open>fromMarkdown\<close> and there is no result.
\<close>

definition new_Stack :: state where
  "new_Stack = \<lparr>stack = [], heap = (\<lambda>_. []), fresh = 0\<rparr>"

definition fromMarkdown :: "env \<Rightarrow> options option \<Rightarrow> event list \<Rightarrow> error + nat option \<times> (nat \<Rightarrow> object)" where
  "fromMarkdown e opts events =
     (case parser_write e opts new_Stack events of
        Inl (err, st) \<Rightarrow> Inl err
      | Inr st \<Rightarrow> Inr (peek st, heap st))"

text \<open>
  The well-formed event streams: every open tag has its close tag, the open tag of
  the document is the first tag and its close tag the last. Text may come before,
  between and after the tags (sax reports the line breaks around the document).
  \<open>balanced\<close> has the names of the open tags, the innermost first.
\<close>

fun is_text :: "event \<Rightarrow> bool" where
  "is_text (TextEvent s) = True"
| "is_text _ = False"

fun balanced :: "jsstring list \<Rightarrow> event list \<Rightarrow> bool" where
  "balanced [] events = list_all is_text events"
| "balanced (t # ts) [] = False"
| "balanced (t # ts) (OpenTag name attrs pos # events) = balanced (name # t # ts) events"
| "balanced (t # ts) (TextEvent s # events) = balanced (t # ts) events"
| "balanced (t # ts) (CloseTag name # events) = (name = t \<and> balanced ts events)"

fun well_formed :: "event list \<Rightarrow> bool" where
  "well_formed (TextEvent s # events) = well_formed events"
| "well_formed (OpenTag name attrs pos # events) =
     (name = ascii ''document'' \<and> balanced [name] events)"
| "well_formed _ = False"

section \<open>Properties of the Slate converter\<close>

subsection \<open>The loop over the children\<close>

lemma recursive_all_converted:
  "cnodes parent = Some ps \<Longrightarrow> list_all2 (\<lambda>n r. convert n = Inr r) nodes rs \<Longrightarrow>
   recursive parent nodes = Inr (CNode (cclass parent) (cfields parent) (Some (ps @ rs)))"
proof (induction nodes arbitrary: parent ps rs)
  case Nil
  then show ?case by (cases parent) simp
next
  case (Cons n nodes)
  from Cons.prems(2) obtain r rs' where rs: "rs = r # rs'" and r: "convert n = Inr r"
    and rest: "list_all2 (\<lambda>n r. convert n = Inr r) nodes rs'"
    by (auto simp: list_all2_Cons1)
  let ?p = "CNode (cclass parent) (cfields parent) (Some (ps @ [r]))"
  have "recursive ?p nodes = Inr (CNode (cclass ?p) (cfields ?p) (Some ((ps @ [r]) @ rs')))"
    by (rule Cons.IH[OF _ rest]) simp
  with Cons.prems(1) r rs show ?case by simp
qed

lemma recursive_error:
  "n \<in> set nodes \<Longrightarrow> convert n = Inl e \<Longrightarrow> \<exists>e'. recursive parent nodes = Inl e'"
proof (induction nodes arbitrary: parent)
  case Nil
  then show ?case by simp
next
  case (Cons m nodes)
  show ?case
  proof (cases "convert m")
    case (Inl a)
    then show ?thesis by simp
  next
    case (Inr r)
    with Cons.prems have "n \<in> set nodes" by auto
    from Cons.IH[OF this Cons.prems(2)] Inr show ?thesis
      by (cases "cnodes parent") auto
  qed
qed

lemma all_converted_list_all2:
  "\<forall>n\<in>set nodes. \<exists>r. convert n = Inr r \<Longrightarrow> \<exists>rs. list_all2 (\<lambda>n r. convert n = Inr r) nodes rs"
proof (induction nodes)
  case Nil
  then show ?case by simp
next
  case (Cons n nodes)
  then obtain r rs where "convert n = Inr r" "list_all2 (\<lambda>n r. convert n = Inr r) nodes rs"
    by auto
  then have "list_all2 (\<lambda>n r. convert n = Inr r) (n # nodes) (r # rs)" by simp
  then show ?case by blast
qed

lemma switch_type_unhandled:
  "node_type node \<notin> Some ` set handled_types \<Longrightarrow> switch_type node = Inr None"
  by (simp add: switch_type_def handled_types_def Let_def)

lemma switch_type_list_item:
  "node_type node = Some ''list_item'' \<Longrightarrow>
   switch_type node =
     Inr (Some (CNode (NS @ ''.Item'') [] (Some [CNode (NS @ ''.Paragraph'') [] (Some [])])))"
  by (simp add: switch_type_def Let_def)

lemma convert_unhandled:
  assumes "node_object node \<noteq> Some ''text''" and "node_type node \<notin> Some ` set handled_types"
  shows "convert node = Inl FailedToProcessNode"
proof (cases node)
  case (Slate ob ty tx mk da ns)
  with assms have "switch_object (Slate ob ty tx mk da ns) = Inr None"
    using switch_type_unhandled[of node] by (simp add: switch_object_def)
  with Slate show ?thesis by simp
qed

lemma convert_child_error:
  assumes "switch_object p = Inr (Some result)" and "cnodes result = Some rs"
    and "node_nodes p = Some children" and "n \<in> set children" and "convert n = Inl e"
  shows "\<exists>e'. convert p = Inl e'"
proof (cases p)
  case (Slate ob ty tx mk da ns)
  with assms(3) have ns: "ns = Some children" by simp
  show ?thesis
  proof (cases rs)
    case Nil
    from recursive_error[OF assms(4,5)] obtain e' where "recursive result children = Inl e'"
      by blast
    with Slate ns assms(1,2) Nil show ?thesis by simp
  next
    case (Cons first others)
    from recursive_error[OF assms(4,5)] obtain e' where "recursive first children = Inl e'"
      by blast
    with Slate ns assms(1,2) Cons show ?thesis by simp
  qed
qed

lemma visited_error:
  "visited nodes n \<Longrightarrow> convert n = Inl e \<Longrightarrow> \<exists>e'. recursive parent nodes = Inl e'"
proof (induction arbitrary: e rule: visited.induct)
  case (visited_top n)
  then show ?case by (rule recursive_error)
next
  case (visited_child p result rs children n)
  from convert_child_error[OF visited_child.hyps(2,3,4,5) visited_child.prems]
  obtain e' where "convert p = Inl e'" by blast
  then show ?case by (rule visited_child.IH)
qed

subsection \<open>The claims about the Slate converter\<close>

text \<open>
  C1. The claim: a Slate node of type \<open>quote\<close> gives a BlockQuote with a children list,
  to which the node's children are mapped in order. The code differs: the literal of
  the \<open>quote\<close> case has no \<open>nodes\<close> property, so the recursion into the children is
  skipped and the BlockQuote is pushed without children, while the \<open>block_quote\<close> case
  beside it has \<open>nodes: []\<close> and keeps the children. Evaluated on a document holding one
  \<open>quote\<close> (and one \<open>block_quote\<close>) around the text \<open>hi\<close>.
\<close>

theorem C1_quote_loses_children:
  "slateToCiceroMarkDom
     (Slate (Some ''document'') None None None None
        (Some [Slate (Some ''block'') (Some ''quote'') None None None
                 (Some [Slate (Some ''text'') None (Some ''hi'') (Some []) None None])]))
   = Inr (CNode ''org.accordproject.commonmark.Document''
            [(''xmlns'', FString ''http://commonmark.org/xml/1.0'')]
            (Some [CNode ''org.accordproject.commonmark.BlockQuote'' [] None]) :: unit cnode)
   \<and>
   slateToCiceroMarkDom
     (Slate (Some ''document'') None None None None
        (Some [Slate (Some ''block'') (Some ''block_quote'') None None None
                 (Some [Slate (Some ''text'') None (Some ''hi'') (Some []) None None])]))
   = Inr (CNode ''org.accordproject.commonmark.Document''
            [(''xmlns'', FString ''http://commonmark.org/xml/1.0'')]
            (Some [CNode ''org.accordproject.commonmark.BlockQuote'' []
                     (Some [CNode ''org.accordproject.commonmark.Text''
                              [(''text'', FString ''hi'')] None])]) :: unit cnode)"
  by (simp add: slateToCiceroMarkDom_def document_node_def switch_object_def switch_type_def
      handleText_def has_mark_def text_field_def NS_def)

text \<open>
  C5. A Slate node of type \<open>list_item\<close> with the children \<open>children\<close> (none when it has
  no \<open>nodes\<close>) gives, when each child is converted, an Item whose only child is a
  Paragraph whose children are the converted children, one for one and in order; when
  some child is not converted the conversion fails and gives no Item.
\<close>

theorem C5_list_item_children:
  assumes "node_object node \<noteq> Some ''text''" and "node_type node = Some ''list_item''"
    and "children = (case node_nodes node of None \<Rightarrow> [] | Some cs \<Rightarrow> cs)"
  shows "((\<forall>c\<in>set children. \<exists>m. convert c = Inr m) \<longrightarrow>
            (\<exists>ms. convert node =
                    Inr (CNode (NS @ ''.Item'') []
                           (Some [CNode (NS @ ''.Paragraph'') [] (Some ms)]))
                  \<and> list_all2 (\<lambda>c m. convert c = Inr m) children ms))
         \<and> (\<not> (\<forall>c\<in>set children. \<exists>m. convert c = Inr m) \<longrightarrow> (\<exists>e. convert node = Inl e))"
proof (cases node)
  case (Slate ob ty tx mk da ns)
  let ?para = "CNode (NS @ ''.Paragraph'') [] (Some []) :: 'a cnode"
  have sw: "switch_object (Slate ob ty tx mk da ns) = Inr (Some (CNode (NS @ ''.Item'') [] (Some [?para])))"
    using assms(1,2) Slate switch_type_list_item[of node] by (simp add: switch_object_def)
  show ?thesis
  proof (cases ns)
    case None
    with Slate assms(3) have "children = []" by simp
    moreover from None Slate sw
    have "convert node = Inr (CNode (NS @ ''.Item'') [] (Some [?para]))" by simp
    ultimately show ?thesis by simp
  next
    case (Some cs)
    with Slate assms(3) have cs: "cs = children" by simp
    have conv: "convert node =
        (case recursive ?para children of Inl e \<Rightarrow> Inl e
         | Inr first' \<Rightarrow> Inr (CNode (NS @ ''.Item'') [] (Some [first'])))"
      using Slate Some cs sw by (simp split: sum.split)
    show ?thesis
    proof (intro conjI impI)
      assume "\<forall>c\<in>set children. \<exists>m. convert c = Inr m"
      from all_converted_list_all2[OF this]
      obtain ms where ms: "list_all2 (\<lambda>c m. convert c = Inr m) children ms" by blast
      have "recursive ?para children = Inr (CNode (cclass ?para) (cfields ?para) (Some ([] @ ms)))"
        by (rule recursive_all_converted[OF _ ms]) simp
      with conv ms show "\<exists>ms. convert node =
                    Inr (CNode (NS @ ''.Item'') []
                           (Some [CNode (NS @ ''.Paragraph'') [] (Some ms)]))
                  \<and> list_all2 (\<lambda>c m. convert c = Inr m) children ms"
        by auto
    next
      assume "\<not> (\<forall>c\<in>set children. \<exists>m. convert c = Inr m)"
      then obtain c where c: "c \<in> set children" and "\<forall>m. convert c \<noteq> Inr m" by blast
      then obtain e where "convert c = Inl e" by (cases "convert c") auto
      from recursive_error[OF c this] obtain e' where "recursive ?para children = Inl e'"
        by blast
      with conv show "\<exists>e. convert node = Inl e" by simp
    qed
  qed
qed

theorem C5_list_item_children_witness:
  "convert (Slate (Some ''block'') (Some ''list_item'') None None None
              (Some [Slate (Some ''text'') None (Some ''a'') (Some []) None None,
                     Slate (Some ''text'') None (Some ''b'') (Some [Mark (Some ''bold'')]) None None]))
   = Inr (CNode (NS @ ''.Item'') []
            (Some [CNode (NS @ ''.Paragraph'') []
                     (Some [CNode (NS @ ''.Text'') [(''text'', FString ''a'')] None,
                            CNode (NS @ ''.Strong'') []
                              (Some [CNode (NS @ ''.Text'') [(''text'', FString ''b'')] None])])])
          :: unit cnode)"
proof -
  let ?a = "Slate (Some ''text'') None (Some ''a'') (Some []) None None :: unit slate"
  let ?b = "Slate (Some ''text'') None (Some ''b'') (Some [Mark (Some ''bold'')]) None None :: unit slate"
  let ?node = "Slate (Some ''block'') (Some ''list_item'') None None None (Some [?a, ?b])"
  have a: "convert ?a = Inr (CNode (NS @ ''.Text'') [(''text'', FString ''a'')] None)"
    by (simp add: switch_object_def handleText_def has_mark_def text_field_def)
  have b: "convert ?b = Inr (CNode (NS @ ''.Strong'') []
                              (Some [CNode (NS @ ''.Text'') [(''text'', FString ''b'')] None]))"
    by (simp add: switch_object_def handleText_def has_mark_def text_field_def)
  have "node_object ?node \<noteq> Some ''text''" and "node_type ?node = Some ''list_item''"
    and "[?a, ?b] = (case node_nodes ?node of None \<Rightarrow> [] | Some cs \<Rightarrow> cs)"
    by simp_all
  from C5_list_item_children[OF this] a b show ?thesis
    by (auto simp: list_all2_Cons1)
qed

text \<open>
  C6. A text node without a code mark: with bold and italic marks the result is an Emph
  whose only child is a Strong whose only child is the Text leaf; with bold only, a
  Strong around the Text; with italic only, an Emph around the Text; with neither, the
  Text leaf alone. The Text leaf carries the node's \<open>text\<close>.
\<close>

theorem C6_mark_composition:
  assumes "node_marks node = Some marks" and "\<not> has_mark ''code'' marks"
    and "text = CNode (NS @ ''.Text'') [(''text'', text_field node)] None"
  shows "(has_mark ''bold'' marks \<and> has_mark ''italic'' marks \<longrightarrow>
            handleText node =
              Inr (CNode (NS @ ''.Emph'') [] (Some [CNode (NS @ ''.Strong'') [] (Some [text])])))
       \<and> (has_mark ''bold'' marks \<and> \<not> has_mark ''italic'' marks \<longrightarrow>
            handleText node = Inr (CNode (NS @ ''.Strong'') [] (Some [text])))
       \<and> (\<not> has_mark ''bold'' marks \<and> has_mark ''italic'' marks \<longrightarrow>
            handleText node = Inr (CNode (NS @ ''.Emph'') [] (Some [text])))
       \<and> (\<not> has_mark ''bold'' marks \<and> \<not> has_mark ''italic'' marks \<longrightarrow>
            handleText node = Inr text)"
  using assms by (simp add: handleText_def)

theorem C6_mark_composition_witness:
  "handleText (Slate (Some ''text'') None (Some ''hi'')
                 (Some [Mark (Some ''bold''), Mark (Some ''italic'')]) None None)
   = Inr (CNode ''org.accordproject.commonmark.Emph'' []
            (Some [CNode ''org.accordproject.commonmark.Strong'' []
                     (Some [CNode ''org.accordproject.commonmark.Text''
                              [(''text'', FString ''hi'')] None])]) :: unit cnode)"
proof -
  let ?marks = "[Mark (Some ''bold''), Mark (Some ''italic'')]"
  let ?node = "Slate (Some ''text'') None (Some ''hi'') (Some ?marks) None None :: unit slate"
  have "node_marks ?node = Some ?marks" and "\<not> has_mark ''code'' ?marks"
    and "CNode (NS @ ''.Text'') [(''text'', FString ''hi'')] None
         = CNode (NS @ ''.Text'') [(''text'', text_field ?node)] None"
    by (simp_all add: has_mark_def text_field_def)
  from C6_mark_composition[OF this] show ?thesis
    by (simp add: has_mark_def NS_def)
qed

text \<open>
  C7. A text node with a code mark gives a Code leaf (no \<open>nodes\<close>) carrying the node's
  \<open>text\<close>, whatever its other marks are.
\<close>

theorem C7_code_mark_wins:
  assumes "node_marks node = Some marks" and "has_mark ''code'' marks"
  shows "handleText node = Inr (CNode (NS @ ''.Code'') [(''text'', text_field node)] None)"
  using assms by (simp add: handleText_def)

theorem C7_code_mark_wins_witness:
  "handleText (Slate (Some ''text'') None (Some ''x = 1'')
                 (Some [Mark (Some ''bold''), Mark (Some ''code''), Mark (Some ''italic'')])
                 None None)
   = Inr (CNode ''org.accordproject.commonmark.Code'' [(''text'', FString ''x = 1'')] None
          :: unit cnode)"
proof -
  let ?marks = "[Mark (Some ''bold''), Mark (Some ''code''), Mark (Some ''italic'')]"
  let ?node = "Slate (Some ''text'') None (Some ''x = 1'') (Some ?marks) None None :: unit slate"
  have "node_marks ?node = Some ?marks" and "has_mark ''code'' ?marks"
    by (simp_all add: has_mark_def)
  from C7_code_mark_wins[OF this] show ?thesis
    by (simp add: text_field_def NS_def)
qed

text \<open>
  C8. The claim: every node that is no text object and whose type is none of the
  case labels makes the converter throw and return no tree. The code differs for a
  node that it never inspects: the result for a \<open>code_block\<close> is a leaf without
  \<open>nodes\<close>, so the children of the \<open>code_block\<close> are not passed to \<open>_recursive\<close>, and a
  document with a node of the unknown type \<open>table\<close> below a \<open>code_block\<close> is converted
  to a tree.
\<close>

theorem C8_unvisited_node_counterexample:
  "node_object (Slate (Some ''block'') (Some ''table'') None None None None :: unit slate)
     \<noteq> Some ''text''
   \<and> node_type (Slate (Some ''block'') (Some ''table'') None None None None :: unit slate)
     \<notin> Some ` set handled_types
   \<and> slateToCiceroMarkDom
     (Slate (Some ''document'') None None None None
        (Some [Slate (Some ''block'') (Some ''code_block'') (Some ''x'') None None
                 (Some [Slate (Some ''block'') (Some ''table'') None None None None])]))
   = Inr (CNode ''org.accordproject.commonmark.Document''
            [(''xmlns'', FString ''http://commonmark.org/xml/1.0'')]
            (Some [CNode ''org.accordproject.commonmark.CodeBlock''
                     [(''text'', FString ''x'')] None]) :: unit cnode)"
  by (simp add: slateToCiceroMarkDom_def document_node_def switch_object_def switch_type_def
      text_field_def handled_types_def NS_def)

text \<open>
  C8, as amended. A node that is no text object and whose type is none of the case
  labels, and that the converter visits (a node of the list given to \<open>_recursive\<close>, or a
  child of a visited node whose result has a \<open>nodes\<close> array), makes the loop throw:
  \<open>convert\<close> of the node is the error of the first \<open>throw\<close>, and every call of
  \<open>_recursive\<close> on a list from which the node is visited, and so the conversion of a
  document with these nodes, ends in an error and returns no tree.
\<close>

theorem C8_unhandled_node_aborts:
  assumes "node_object bad \<noteq> Some ''text''" and "node_type bad \<notin> Some ` set handled_types"
    and "visited nodes bad"
  shows "convert bad = Inl FailedToProcessNode
       \<and> (\<exists>e. recursive parent nodes = Inl e)
       \<and> (\<exists>e. slateToCiceroMarkDom (Slate ob ty tx mk da (Some nodes)) = Inl e)"
proof -
  have bad: "convert bad = Inl FailedToProcessNode"
    using assms(1,2) by (rule convert_unhandled)
  from visited_error[OF assms(3) bad]
  have "\<And>parent. \<exists>e. recursive parent nodes = Inl e" .
  with bad show ?thesis by (simp add: slateToCiceroMarkDom_def)
qed

theorem C8_unhandled_node_aborts_witness:
  "slateToCiceroMarkDom
     (Slate (Some ''document'') None None None None
        (Some [Slate (Some ''block'') (Some ''paragraph'') None None None
                 (Some [Slate (Some ''text'') None (Some ''hi'') (Some []) None None,
                        Slate (Some ''inline'') (Some ''table'') None None None None])]))
   = (Inl FailedToProcessNode :: error + unit cnode)"
proof -
  let ?bad = "Slate (Some ''inline'') (Some ''table'') None None None None :: unit slate"
  let ?hi = "Slate (Some ''text'') None (Some ''hi'') (Some []) None None :: unit slate"
  let ?par = "Slate (Some ''block'') (Some ''paragraph'') None None None (Some [?hi, ?bad])"
  have "visited [?par] ?par" by (rule visited_top) simp
  moreover have "switch_object ?par = Inr (Some (CNode (NS @ ''.Paragraph'') [] (Some [])))"
    by (simp add: switch_object_def switch_type_def)
  moreover have "cnodes (CNode (NS @ ''.Paragraph'') [] (Some []) :: unit cnode) = Some []"
    and "node_nodes ?par = Some [?hi, ?bad]" and "?bad \<in> set [?hi, ?bad]"
    by simp_all
  ultimately have v: "visited [?par] ?bad"
    by (rule visited_child)
  have "node_object ?bad \<noteq> Some ''text''" and "node_type ?bad \<notin> Some ` set handled_types"
    by (simp_all add: handled_types_def)
  from C8_unhandled_node_aborts[OF this v, of document_node "Some ''document''" None None None None]
  show ?thesis
    by (simp add: slateToCiceroMarkDom_def document_node_def switch_object_def switch_type_def
        handleText_def has_mark_def text_field_def)
qed

text \<open>
  C10. The result for a text node is fixed by its \<open>text\<close> and by which of the marks
  bold, italic and code occur in its \<open>marks\<close>: two nodes with the same text whose marks
  agree on these three occurrences give the same result. In particular a permutation of
  the marks (the same multiset) and a repetition of marks (the same set) change nothing.
\<close>

theorem C10_marks_as_set:
  assumes "node_text node' = node_text node"
    and "node_marks node = Some marks" and "node_marks node' = Some marks'"
  shows "(has_mark ''bold'' marks' = has_mark ''bold'' marks
          \<and> has_mark ''italic'' marks' = has_mark ''italic'' marks
          \<and> has_mark ''code'' marks' = has_mark ''code'' marks
          \<longrightarrow> handleText node' = handleText node)
       \<and> (set marks' = set marks \<longrightarrow> handleText node' = handleText node)
       \<and> (mset marks' = mset marks \<longrightarrow> handleText node' = handleText node)"
proof -
  have agree: "handleText node' = handleText node"
    if "has_mark ''bold'' marks' = has_mark ''bold'' marks"
      and "has_mark ''italic'' marks' = has_mark ''italic'' marks"
      and "has_mark ''code'' marks' = has_mark ''code'' marks"
    using that assms by (simp add: handleText_def text_field_def Let_def)
  have same_set: "has_mark t marks' = has_mark t marks" if "set marks' = set marks" for t
    using that by (simp add: has_mark_def list_ex_iff)
  have "set marks' = set marks" if "mset marks' = mset marks"
    using that by (rule mset_eq_setD)
  with agree same_set show ?thesis by blast
qed

theorem C10_marks_as_set_witness:
  "handleText (Slate (Some ''text'') None (Some ''hi'')
                 (Some [Mark (Some ''italic''), Mark (Some ''bold''), Mark (Some ''italic'')])
                 None None :: unit slate)
   = handleText (Slate (Some ''text'') None (Some ''hi'')
                   (Some [Mark (Some ''bold''), Mark (Some ''italic'')]) None None)"
proof -
  let ?m = "[Mark (Some ''bold''), Mark (Some ''italic'')]"
  let ?m' = "[Mark (Some ''italic''), Mark (Some ''bold''), Mark (Some ''italic'')]"
  let ?n = "Slate (Some ''text'') None (Some ''hi'') (Some ?m) None None :: unit slate"
  let ?n' = "Slate (Some ''text'') None (Some ''hi'') (Some ?m') None None :: unit slate"
  have "node_text ?n' = node_text ?n" and "node_marks ?n = Some ?m" and "node_marks ?n' = Some ?m'"
    by simp_all
  from C10_marks_as_set[OF this] have "set ?m' = set ?m \<longrightarrow> handleText ?n' = handleText ?n"
    by blast
  moreover have "set ?m' = set ?m" by auto
  ultimately show ?thesis by blast
qed

section \<open>Properties of the CommonMark transformer\<close>

subsection \<open>The tag classifier\<close>

lemma is_lower_not_underscore: "is_lower d \<Longrightarrow> d \<noteq> 95"
  by (simp add: is_lower_def)

lemma toUpperCase_lower: "is_lower d \<Longrightarrow> toUpperCase e d = [d - 32]"
  by (simp add: toUpperCase_def)

lemma lower_after_underscore_tail:
  "lower_after_underscore (c # rest) \<Longrightarrow> lower_after_underscore rest"
  by (cases rest) auto

lemma camelCased_spec_camel:
  "lower_after_underscore name \<Longrightarrow> camelCased e name = spec_camel e False name"
proof (induction e name rule: camelCased.induct)
  case (1 e c d rest)
  show ?case
  proof (cases "c = 95")
    case True
    with "1.prems" have d: "is_lower d" by simp
    from "1.prems" have "lower_after_underscore rest"
      by (auto dest: lower_after_underscore_tail)
    with "1.IH"(1) True d have "camelCased e rest = spec_camel e False rest" by simp
    with True d is_lower_not_underscore[OF d] show ?thesis by simp
  next
    case False
    from "1.prems" have "lower_after_underscore (d # rest)" by simp
    with "1.IH"(2) False have "camelCased e (d # rest) = spec_camel e False (d # rest)" by simp
    with False show ?thesis by simp
  qed
next
  case (2 e c)
  then show ?case by simp
next
  case (3 e)
  then show ?case by simp
qed

lemma camelCased_before_underscore:
  "camelCased e (xs @ 95 # ys) = camelCased e xs @ camelCased e (95 # ys)"
proof (induction e xs rule: camelCased.induct)
  case (1 e c d rest)
  then show ?case by simp
next
  case (2 e c)
  then show ?case by (simp add: is_lower_def)
next
  case (3 e)
  then show ?case by simp
qed

lemma camelCased_underscore_kept:
  "ys = [] \<or> \<not> is_lower (hd ys) \<Longrightarrow> camelCased e (95 # ys) = 95 # camelCased e ys"
  by (cases ys) auto

lemma camelCased_no_underscore: "95 \<notin> set xs \<Longrightarrow> camelCased e xs = xs"
  by (induction e xs rule: camelCased.induct) auto

subsection \<open>The inspector and the text handler\<close>

lemma parseHtmlBlock_returns: "\<exists>r. parseHtmlBlock e string = Inr r"
  by (simp add: parseHtmlBlock_def split: sum.split)

lemma parseHtmlBlock_value_returns: "\<exists>r. parseHtmlBlock_value e v = Inr r"
  using parseHtmlBlock_returns
  by (auto simp: parseHtmlBlock_value_def split: option.split val.split)

lemma ontext_empty:
  assumes "peek st = None \<or> trimmed opts t0 = []"
  shows "ontext e opts st t0 = Inr st"
  using assms by (auto simp: ontext_def Let_def split: option.splits)

lemma ontext_nonempty:
  assumes "peek st = Some head" and "trimmed opts t0 = t" and "t \<noteq> []"
  shows "\<exists>json. final_state (ontext e opts st t0) = st\<lparr>heap := (heap st)(head := json)\<rparr>
           \<and> (isLeafNode e (heap st head) \<longrightarrow> map_of json (ascii ''text'') = Some (VString t))
           \<and> (\<not> option_set tagInfo opts \<longrightarrow>
                 ontext e opts st t0 = Inr (st\<lparr>heap := (heap st)(head := json)\<rparr>))"
proof -
  let ?json = "if isLeafNode e (heap st head)
               then AList.update (ascii ''text'') (VString t) (heap st head) else heap st head"
  let ?v = "if isHtmlNode e ?json then map_of ?json (ascii ''text'')
            else map_of ?json (ascii ''info'')"
  let ?st1 = "st\<lparr>heap := (heap st)(head := ?json)\<rparr>"
  have text1: "isLeafNode e (heap st head) \<longrightarrow> map_of ?json (ascii ''text'') = Some (VString t)"
    by (simp add: update_conv')
  obtain r where r: "parseHtmlBlock_value e ?v = Inr r"
    using parseHtmlBlock_value_returns by blast
  show ?thesis
  proof (cases "(isHtmlNode e ?json \<or> isCodeBlockNode e ?json) \<and> option_set tagInfo opts \<and> r \<noteq> None")
    case True
    then obtain info where info: "r = Some info" by auto
    let ?start = "AList.update (ascii ''tag'') (VObject (head_tag_start e info)) ?json"
    let ?done = "AList.update (ascii ''tag'') (VObject (head_tag e info)) ?json"
    have neq: "ascii ''tag'' \<noteq> ascii ''text''" by (simp add: ascii_def)
    have text2: "isLeafNode e (heap st head) \<longrightarrow> map_of ?start (ascii ''text'') = Some (VString t)"
      and text3: "isLeafNode e (heap st head) \<longrightarrow> map_of ?done (ascii ''text'') = Some (VString t)"
      using neq by (simp_all add: update_conv')
    show ?thesis
    proof (cases "tag_loop_throws info")
      case True
      have "ontext e opts st t0 = Inl (TypeError, st\<lparr>heap := (heap st)(head := ?start)\<rparr>)"
        using assms \<open>(isHtmlNode e ?json \<or> isCodeBlockNode e ?json) \<and> option_set tagInfo opts \<and> r \<noteq> None\<close>
          r info True by (simp add: ontext_def Let_def)
      then have "final_state (ontext e opts st t0) = st\<lparr>heap := (heap st)(head := ?start)\<rparr>"
        by (simp add: final_state_def)
      with text2 \<open>(isHtmlNode e ?json \<or> isCodeBlockNode e ?json) \<and> option_set tagInfo opts \<and> r \<noteq> None\<close>
      show ?thesis by blast
    next
      case False
      have "ontext e opts st t0 = Inr (st\<lparr>heap := (heap st)(head := ?done)\<rparr>)"
        using assms \<open>(isHtmlNode e ?json \<or> isCodeBlockNode e ?json) \<and> option_set tagInfo opts \<and> r \<noteq> None\<close>
          r info False by (simp add: ontext_def Let_def)
      then have "final_state (ontext e opts st t0) = st\<lparr>heap := (heap st)(head := ?done)\<rparr>"
        by (simp add: final_state_def)
      with text3 \<open>(isHtmlNode e ?json \<or> isCodeBlockNode e ?json) \<and> option_set tagInfo opts \<and> r \<noteq> None\<close>
      show ?thesis by blast
    qed
  next
    case no_tag: False
    have run: "ontext e opts st t0 = Inr ?st1"
      using assms no_tag r by (auto simp: ontext_def Let_def split: option.splits)
    then have "final_state (ontext e opts st t0) = ?st1"
      by (simp add: final_state_def)
    with text1 run show ?thesis by blast
  qed
qed


subsection \<open>The claims about the CommonMark transformer\<close>

text \<open>
  C2. The claim: a text event that finds a leaf node (Text, CodeBlock, HtmlInline,
  HtmlBlock, Code) on top of the stack assigns its content to the \<open>text\<close> of that node,
  also when the content is empty. The code differs by its guard \<open>t.length > 0\<close>, and
  by the option \<open>trimText\<close>: the state stays as it is when the content is empty, and
  when it is white space (here a space and a no-break space) under \<open>trimText\<close>; the
  node on top gets no \<open>text\<close>.
\<close>

theorem C2_empty_text_counterexample:
  "peek \<lparr>stack = [0],
         heap = (\<lambda>_. [])(0 := [(ascii ''$class'', VString (ascii ''org.accordproject.commonmark.Text''))]),
         fresh = 1\<rparr> = Some 0
   \<and> isLeafNode \<lparr>COMMON_NS_PREFIX = ascii ''org.accordproject.commonmark.'',
                 parseFromString = (\<lambda>s. Inl LibraryError), upperCase = (\<lambda>c. [c]),
                 lowerCase = (\<lambda>s. s)\<rparr>
        [(ascii ''$class'', VString (ascii ''org.accordproject.commonmark.Text''))]
   \<and> ontext \<lparr>COMMON_NS_PREFIX = ascii ''org.accordproject.commonmark.'',
             parseFromString = (\<lambda>s. Inl LibraryError), upperCase = (\<lambda>c. [c]),
             lowerCase = (\<lambda>s. s)\<rparr>
        None
        \<lparr>stack = [0],
         heap = (\<lambda>_. [])(0 := [(ascii ''$class'', VString (ascii ''org.accordproject.commonmark.Text''))]),
         fresh = 1\<rparr> []
      = Inr \<lparr>stack = [0],
             heap = (\<lambda>_. [])(0 := [(ascii ''$class'', VString (ascii ''org.accordproject.commonmark.Text''))]),
             fresh = 1\<rparr>
   \<and> ontext \<lparr>COMMON_NS_PREFIX = ascii ''org.accordproject.commonmark.'',
             parseFromString = (\<lambda>s. Inl LibraryError), upperCase = (\<lambda>c. [c]),
             lowerCase = (\<lambda>s. s)\<rparr>
        (Some \<lparr>trimText = True, enableSourceLocation = False, noIndex = False, tagInfo = False\<rparr>)
        \<lparr>stack = [0],
         heap = (\<lambda>_. [])(0 := [(ascii ''$class'', VString (ascii ''org.accordproject.commonmark.Text''))]),
         fresh = 1\<rparr> [0x20, 0xA0]
      = Inr \<lparr>stack = [0],
             heap = (\<lambda>_. [])(0 := [(ascii ''$class'', VString (ascii ''org.accordproject.commonmark.Text''))]),
             fresh = 1\<rparr>
   \<and> map_of [(ascii ''$class'', VString (ascii ''org.accordproject.commonmark.Text''))] (ascii ''text'')
       = None"
  by (simp add: peek_def isLeafNode_def has_class_def ontext_def trimmed_def option_set_def
      trim_def is_space_def ascii_def)

text \<open>
  C2, as amended. With a leaf node on top of the stack, a text event whose content,
  trimmed when the option \<open>trimText\<close> is set, is not empty assigns that content to the
  \<open>text\<close> of the node and leaves the stack as it is: this is the state when the handler
  returns and also when it throws after the assignment, and the handler returns when
  the option \<open>tagInfo\<close> is not set. An event whose content is then empty changes
  nothing.
\<close>

theorem C2_text_assigned_when_not_empty:
  assumes "peek st = Some head" and "isLeafNode e (heap st head)"
  shows "(trimmed opts t0 \<noteq> [] \<longrightarrow>
            map_of (heap (final_state (ontext e opts st t0)) head) (ascii ''text'')
              = Some (VString (trimmed opts t0))
            \<and> stack (final_state (ontext e opts st t0)) = stack st
            \<and> (\<not> option_set tagInfo opts \<longrightarrow> (\<exists>st'. ontext e opts st t0 = Inr st')))
       \<and> (trimmed opts t0 = [] \<longrightarrow> ontext e opts st t0 = Inr st)"
proof (intro conjI impI)
  assume t: "trimmed opts t0 \<noteq> []"
  from ontext_nonempty[OF assms(1) refl t, of e] assms(2)
  obtain json where fin: "final_state (ontext e opts st t0) = st\<lparr>heap := (heap st)(head := json)\<rparr>"
    and assigned: "map_of json (ascii ''text'') = Some (VString (trimmed opts t0))"
    and ret: "\<not> option_set tagInfo opts \<longrightarrow>
                 ontext e opts st t0 = Inr (st\<lparr>heap := (heap st)(head := json)\<rparr>)"
    by blast
  from fin assigned
  show "map_of (heap (final_state (ontext e opts st t0)) head) (ascii ''text'')
          = Some (VString (trimmed opts t0))"
    by simp
  from fin show "stack (final_state (ontext e opts st t0)) = stack st" by simp
  assume "\<not> option_set tagInfo opts"
  with ret show "\<exists>st'. ontext e opts st t0 = Inr st'" by blast
next
  assume "trimmed opts t0 = []"
  then show "ontext e opts st t0 = Inr st" by (simp add: ontext_empty)
qed

theorem C2_text_assigned_when_not_empty_witness:
  "map_of (heap (final_state
       (ontext \<lparr>COMMON_NS_PREFIX = ascii ''org.accordproject.commonmark.'',
                parseFromString = (\<lambda>s. Inl LibraryError), upperCase = (\<lambda>c. [c]),
                lowerCase = (\<lambda>s. s)\<rparr>
          None
          \<lparr>stack = [0],
           heap = (\<lambda>_. [])(0 := [(ascii ''$class'', VString (ascii ''org.accordproject.commonmark.Text''))]),
           fresh = 1\<rparr>
          (ascii ''hi''))) 0) (ascii ''text'')
   = Some (VString (ascii ''hi''))"
proof -
  let ?e = "\<lparr>COMMON_NS_PREFIX = ascii ''org.accordproject.commonmark.'',
                parseFromString = (\<lambda>s. Inl LibraryError), upperCase = (\<lambda>c. [c]),
                lowerCase = (\<lambda>s. s)\<rparr>"
  let ?st = "\<lparr>stack = [0],
           heap = (\<lambda>_. [])(0 := [(ascii ''$class'', VString (ascii ''org.accordproject.commonmark.Text''))]),
           fresh = 1\<rparr>"
  have "peek ?st = Some 0" and "isLeafNode ?e (heap ?st 0)"
    by (simp_all add: peek_def isLeafNode_def has_class_def ascii_def)
  from C2_text_assigned_when_not_empty[OF this, of None "ascii ''hi''"]
  show ?thesis by (simp add: trimmed_def option_set_def ascii_def)
qed

text \<open>
  C3. The claim: for every tag name the classifier returns the prefix and the camel
  case of the name, every character after an underscore in upper case and the
  underscores removed, the first letter capitalized. The code differs where an
  underscore is not followed by a letter a to z: the regular expression does not
  match there and the underscore stays, as in \<open>a_1\<close>.
\<close>

theorem C3_underscore_kept_counterexample:
  "toClass \<lparr>COMMON_NS_PREFIX = ascii ''org.accordproject.commonmark.'',
            parseFromString = (\<lambda>s. Inl LibraryError), upperCase = (\<lambda>c. [c]),
            lowerCase = (\<lambda>s. s)\<rparr> (ascii ''a_1'')
     = ascii ''org.accordproject.commonmark.A_1''
   \<and> spec_classify \<lparr>COMMON_NS_PREFIX = ascii ''org.accordproject.commonmark.'',
            parseFromString = (\<lambda>s. Inl LibraryError), upperCase = (\<lambda>c. [c]),
            lowerCase = (\<lambda>s. s)\<rparr> (ascii ''a_1'')
     = ascii ''org.accordproject.commonmark.A1''"
  by (simp add: toClass_def spec_classify_def capitalizeFirstLetter_def toUpperCase_def
      is_lower_def ascii_def)

text \<open>
  C3, as amended. For every tag name, \<open>toClass\<close> returns the prefix and then the camel
  case of the name with its first character in upper case. In the camel case an
  underscore that is followed by a letter a to z is removed and that letter is put in
  upper case; an underscore that is not followed by a letter a to z is kept; what
  stands before and after the underscore is converted in the same way, and a name
  without underscore is not changed. For a name in which each underscore is followed
  by a letter a to z this is the camel case of the claim: every character after an
  underscore in upper case and the underscores removed. \<open>toClass\<close> has no error path:
  it returns a string for every name.
\<close>

theorem C3_camel_case:
  "toClass e name = COMMON_NS_PREFIX e @ capitalizeFirstLetter e (camelCased e name)
   \<and> (is_lower d \<longrightarrow>
        camelCased e (xs @ 95 # d # ys) = camelCased e xs @ [d - 32] @ camelCased e ys)
   \<and> (ys = [] \<or> \<not> is_lower (hd ys) \<longrightarrow>
        camelCased e (xs @ 95 # ys) = camelCased e xs @ 95 # camelCased e ys)
   \<and> (95 \<notin> set xs \<longrightarrow> camelCased e xs = xs)
   \<and> (lower_after_underscore name \<longrightarrow>
        toClass e name = COMMON_NS_PREFIX e @ capitalizeFirstLetter e (spec_camel e False name))"
proof (intro conjI impI)
  show "toClass e name = COMMON_NS_PREFIX e @ capitalizeFirstLetter e (camelCased e name)"
    by (simp add: toClass_def)
next
  assume "is_lower d"
  then show "camelCased e (xs @ 95 # d # ys) = camelCased e xs @ [d - 32] @ camelCased e ys"
    by (simp add: camelCased_before_underscore toUpperCase_lower)
next
  assume "ys = [] \<or> \<not> is_lower (hd ys)"
  then show "camelCased e (xs @ 95 # ys) = camelCased e xs @ 95 # camelCased e ys"
    by (simp only: camelCased_before_underscore camelCased_underscore_kept)
next
  assume "95 \<notin> set xs"
  then show "camelCased e xs = xs" by (rule camelCased_no_underscore)
next
  assume "lower_after_underscore name"
  then show "toClass e name = COMMON_NS_PREFIX e @ capitalizeFirstLetter e (spec_camel e False name)"
    by (simp add: toClass_def camelCased_spec_camel)
qed

theorem C3_camel_case_witness:
  "toClass \<lparr>COMMON_NS_PREFIX = ascii ''org.accordproject.commonmark.'',
            parseFromString = (\<lambda>s. Inl LibraryError), upperCase = (\<lambda>c. [c]),
            lowerCase = (\<lambda>s. s)\<rparr> (ascii ''block_quote'')
   = ascii ''org.accordproject.commonmark.BlockQuote''"
proof -
  let ?e = "\<lparr>COMMON_NS_PREFIX = ascii ''org.accordproject.commonmark.'',
            parseFromString = (\<lambda>s. Inl LibraryError), upperCase = (\<lambda>c. [c]),
            lowerCase = (\<lambda>s. s)\<rparr>"
  have "lower_after_underscore (ascii ''block_quote'')"
    by (simp add: ascii_def is_lower_def)
  with C3_camel_case[of ?e "ascii ''block_quote''"]
  have "toClass ?e (ascii ''block_quote'')
        = COMMON_NS_PREFIX ?e @ capitalizeFirstLetter ?e (spec_camel ?e False (ascii ''block_quote''))"
    by blast
  then show ?thesis
    by (simp add: ascii_def capitalizeFirstLetter_def toUpperCase_def is_lower_def)
qed

text \<open>
  C4. The claim: after a well-formed event stream the stack holds the document node
  and nothing else, and that node is returned. The code differs when the option
  \<open>tagInfo\<close> is set and the markdown has an HTML block with an attribute named
  \<open>hasOwnProperty\<close>: \<open>ontext\<close> calls \<open>tagInfo.attributes.hasOwnProperty(attName)\<close>, the
  property is the string of the attribute, and the call is a TypeError outside any
  \<open>try\<close>. Evaluated on the events of the markdown text
  \<open><div hasOwnProperty="x">\<close>, with the answer of xmldom for this fragment (an element
  \<open>div\<close> with the one attribute): the exception leaves \<open>parser.write\<close> with two nodes on
  the stack and \<open>fromMarkdown\<close> returns nothing; with the attribute \<open>class\<close> in place of
  \<open>hasOwnProperty\<close> the stream ends with the document node alone on the stack.
\<close>

theorem C4_attribute_named_hasOwnProperty_throws:
  "well_formed
     [TextEvent [10], TextEvent [10],
      OpenTag (ascii ''document'') [(ascii ''xmlns'', ascii ''http://commonmark.org/xml/1.0'')]
        \<lparr>line = 0, column = 0, position = 0, startTagPosition = 0\<rparr>,
      TextEvent (10 # ascii ''    ''),
      OpenTag (ascii ''html_block'') []
        \<lparr>line = 0, column = 0, position = 0, startTagPosition = 0\<rparr>,
      TextEvent (ascii ''<div hasOwnProperty='' @ [34] @ ascii ''x'' @ [34] @ ascii ''>''),
      CloseTag (ascii ''html_block''), TextEvent [10], CloseTag (ascii ''document''),
      TextEvent [10]]
   \<and> map_sum (\<lambda>(err, st). (err, stack st)) stack
       (parser_write
          \<lparr>COMMON_NS_PREFIX = ascii ''org.accordproject.commonmark.'',
           parseFromString = (\<lambda>s. Inr [\<lparr>dom_attributes = Some [(ascii ''hasOwnProperty'', ascii ''x'')],
                                        dom_tagName = Some (ascii ''div''),
                                        dom_textContent = []\<rparr>]),
           upperCase = (\<lambda>c. [c]), lowerCase = (\<lambda>s. s)\<rparr>
          (Some \<lparr>trimText = False, enableSourceLocation = False, noIndex = False, tagInfo = True\<rparr>)
          new_Stack
          [TextEvent [10], TextEvent [10],
           OpenTag (ascii ''document'') [(ascii ''xmlns'', ascii ''http://commonmark.org/xml/1.0'')]
             \<lparr>line = 0, column = 0, position = 0, startTagPosition = 0\<rparr>,
           TextEvent (10 # ascii ''    ''),
           OpenTag (ascii ''html_block'') []
             \<lparr>line = 0, column = 0, position = 0, startTagPosition = 0\<rparr>,
           TextEvent (ascii ''<div hasOwnProperty='' @ [34] @ ascii ''x'' @ [34] @ ascii ''>''),
           CloseTag (ascii ''html_block''), TextEvent [10], CloseTag (ascii ''document''),
           TextEvent [10]])
     = Inl (TypeError, [1, 0])
   \<and> fromMarkdown
          \<lparr>COMMON_NS_PREFIX = ascii ''org.accordproject.commonmark.'',
           parseFromString = (\<lambda>s. Inr [\<lparr>dom_attributes = Some [(ascii ''hasOwnProperty'', ascii ''x'')],
                                        dom_tagName = Some (ascii ''div''),
                                        dom_textContent = []\<rparr>]),
           upperCase = (\<lambda>c. [c]), lowerCase = (\<lambda>s. s)\<rparr>
          (Some \<lparr>trimText = False, enableSourceLocation = False, noIndex = False, tagInfo = True\<rparr>)
          [TextEvent [10], TextEvent [10],
           OpenTag (ascii ''document'') [(ascii ''xmlns'', ascii ''http://commonmark.org/xml/1.0'')]
             \<lparr>line = 0, column = 0, position = 0, startTagPosition = 0\<rparr>,
           TextEvent (10 # ascii ''    ''),
           OpenTag (ascii ''html_block'') []
             \<lparr>line = 0, column = 0, position = 0, startTagPosition = 0\<rparr>,
           TextEvent (ascii ''<div hasOwnProperty='' @ [34] @ ascii ''x'' @ [34] @ ascii ''>''),
           CloseTag (ascii ''html_block''), TextEvent [10], CloseTag (ascii ''document''),
           TextEvent [10]]
     = Inl TypeError
   \<and> map_sum (\<lambda>(err, st). (err, stack st)) stack
       (parser_write
          \<lparr>COMMON_NS_PREFIX = ascii ''org.accordproject.commonmark.'',
           parseFromString = (\<lambda>s. Inr [\<lparr>dom_attributes = Some [(ascii ''class'', ascii ''x'')],
                                        dom_tagName = Some (ascii ''div''),
                                        dom_textContent = []\<rparr>]),
           upperCase = (\<lambda>c. [c]), lowerCase = (\<lambda>s. s)\<rparr>
          (Some \<lparr>trimText = False, enableSourceLocation = False, noIndex = False, tagInfo = True\<rparr>)
          new_Stack
          [TextEvent [10], TextEvent [10],
           OpenTag (ascii ''document'') [(ascii ''xmlns'', ascii ''http://commonmark.org/xml/1.0'')]
             \<lparr>line = 0, column = 0, position = 0, startTagPosition = 0\<rparr>,
           TextEvent (10 # ascii ''    ''),
           OpenTag (ascii ''html_block'') []
             \<lparr>line = 0, column = 0, position = 0, startTagPosition = 0\<rparr>,
           TextEvent (ascii ''<div class='' @ [34] @ ascii ''x'' @ [34] @ ascii ''>''),
           CloseTag (ascii ''html_block''), TextEvent [10], CloseTag (ascii ''document''),
           TextEvent [10]])
     = Inr [0]"
  by (simp add: new_Stack_def fromMarkdown_def onopentag_def ontext_def onclosetag_def peek_def
      push_def pop_def newNode_def assign_def trimmed_def option_set_def isLeafNode_def
      isHtmlNode_def isCodeBlockNode_def has_class_def toClass_def capitalizeFirstLetter_def
      toUpperCase_def is_lower_def parseHtmlBlock_value_def parseHtmlBlock_def
      parseHtmlBlock_try_def tag_loop_throws_def for_in_def is_array_index_def is_digit_def
      toLowerCase_def is_upper_def endsWith_def update_conv' ascii_def Let_def)

text \<open>
  C9. \<open>parseHtmlBlock\<close> returns for every string and every behaviour of the parser: a
  tag object, or \<open>null\<close>. It returns \<open>null\<close> when the parser throws and when the
  document has no child; a tag object that it returns has the lower-cased tag name,
  the attributes and the text of the first child, and the flag for a string that ends
  with \<open>/>\<close>.
\<close>

theorem C9_parseHtmlBlock_never_raises:
  "(\<exists>r. parseHtmlBlock e string = Inr r)
   \<and> ((\<exists>err. parseFromString e string = Inl err) \<longrightarrow> parseHtmlBlock e string = Inr None)
   \<and> (parseFromString e string = Inr [] \<longrightarrow> parseHtmlBlock e string = Inr None)
   \<and> (\<forall>t. parseHtmlBlock e string = Inr (Some t) \<longrightarrow>
        (\<exists>item rest attrs name.
            parseFromString e string = Inr (item # rest) \<and> dom_attributes item = Some attrs
            \<and> dom_tagName item = Some name
            \<and> t = \<lparr>tag = toLowerCase e name,
                    attributes = snd (attributes_loop attrs ([], [])),
                    attributeString = fst (attributes_loop attrs ([], [])),
                    content = dom_textContent item,
                    closed = endsWith string (ascii ''/>'')\<rparr>))"
  by (auto simp: parseHtmlBlock_def parseHtmlBlock_try_def Let_def
      split: sum.splits list.splits option.splits prod.splits)

theorem C9_parseHtmlBlock_never_raises_witness:
  "parseHtmlBlock \<lparr>COMMON_NS_PREFIX = ascii ''org.accordproject.commonmark.'',
                   parseFromString = (\<lambda>s. Inr []), upperCase = (\<lambda>c. [c]),
                   lowerCase = (\<lambda>s. s)\<rparr> (ascii ''</foo>'') = Inr None
   \<and> parseHtmlBlock \<lparr>COMMON_NS_PREFIX = ascii ''org.accordproject.commonmark.'',
                   parseFromString = (\<lambda>s. Inl LibraryError), upperCase = (\<lambda>c. [c]),
                   lowerCase = (\<lambda>s. s)\<rparr> (ascii ''<foo'') = Inr None"
  using C9_parseHtmlBlock_never_raises[of "\<lparr>COMMON_NS_PREFIX = ascii ''org.accordproject.commonmark.'',
                   parseFromString = (\<lambda>s. Inr []), upperCase = (\<lambda>c. [c]),
                   lowerCase = (\<lambda>s. s)\<rparr>" "ascii ''</foo>''"]
    C9_parseHtmlBlock_never_raises[of "\<lparr>COMMON_NS_PREFIX = ascii ''org.accordproject.commonmark.'',
                   parseFromString = (\<lambda>s. Inl LibraryError), upperCase = (\<lambda>c. [c]),
                   lowerCase = (\<lambda>s. s)\<rparr>" "ascii ''<foo''"]
  by simp

end
